theory Spec2Isabelle
  imports Complex_Main
begin

section \<open>Documents, errors and the Python primitives the handlers use\<close>

text \<open>
  The handlers of \<^verbatim>\<open>main.py\<close> read and write schema-less documents of a document store.
  A stored value is one of the BSON kinds the driver hands to Python: null, a boolean, an
  integer (of 64 bits in the store, so that \<open>float\<close> of it never overflows), a double, a
  string, an ObjectId (its bytes), an array or an embedded document (a dict, kept as an
  association list in insertion order).

  Doubles are the type parameter \<open>'f\<close>: the model does not fix a representation of IEEE
  binary64. Every operation on doubles that the handlers perform is a field of the
  record \<open>runtime\<close> below, so that each theorem holds for whatever these operations compute.
\<close>

datatype 'f bson =
    VNull
  | VBool bool
  | VInt int
  | VFloat 'f
  | VStr string
  | VOid "nat list"
  | VList "'f bson list"
  | VDoc "(string \<times> 'f bson) list"

type_synonym 'f doc = "(string \<times> 'f bson) list"

text \<open>
  What a handler can raise. \<open>HTTPException\<close> carries the status code and the detail text;
  the others are Python exceptions that no handler catches, which the framework turns
  into an internal server error. \<open>ServerSelectionTimeoutError\<close> is the driver's error for
  a server that cannot be reached.
\<close>

datatype error =
    HTTPException nat string
  | InvalidId
  | TypeError
  | ValueError
  | AttributeError
  | KeyError
  | ValidationError
  | ServerSelectionTimeoutError

abbreviation ServiceUnavailable :: error where
  "ServiceUnavailable \<equiv> HTTPException 500 ''Database not configured''"

abbreviation NotFound :: error where
  "NotFound \<equiv> HTTPException 404 ''Cleaner not found''"

abbreviation InvalidRequest :: error where
  "InvalidRequest \<equiv> HTTPException 400 ''Service not offered by cleaner''"

text \<open>
  The primitives of the Python runtime and of the validation library that are left
  uninterpreted: arithmetic on doubles (\<open>+\<close>, \<open>-\<close>, \<open>*\<close>, \<open>round(x, 2)\<close>, the literal \<open>0.1\<close>,
  \<open>float\<close> of an integer and of a string, the tests \<open>x >= 0\<close> and \<open>x == 0\<close>), \<open>str\<close> of a value
  that is not null, a boolean, a string or an ObjectId, and the conversions the validation
  library tries on a value that is not of the type a field declares.
\<close>

record 'f runtime =
  fadd :: "'f \<Rightarrow> 'f \<Rightarrow> 'f"
  fsub :: "'f \<Rightarrow> 'f \<Rightarrow> 'f"
  fmul :: "'f \<Rightarrow> 'f \<Rightarrow> 'f"
  round2 :: "'f \<Rightarrow> 'f"
  float_0_1 :: "'f"
  float_of_int :: "int \<Rightarrow> 'f"
  float_of_str :: "string \<Rightarrow> 'f option"
  float_ge0 :: "'f \<Rightarrow> bool"
  float_is_zero :: "'f \<Rightarrow> bool"
  str_other :: "'f bson \<Rightarrow> string"
  lax_float :: "'f bson \<Rightarrow> 'f option"
  lax_int :: "'f bson \<Rightarrow> int option"
  lax_bool :: "'f bson \<Rightarrow> bool option"
  lax_str :: "'f bson \<Rightarrow> string option"
  lax_dict :: "'f bson \<Rightarrow> 'f doc option"

text \<open>\<^verbatim>\<open>d.get(k, default)\<close> on a dict.\<close>

definition py_get :: "'f doc \<Rightarrow> string \<Rightarrow> 'f bson \<Rightarrow> 'f bson" where
  "py_get d k dflt = (case map_of d k of None \<Rightarrow> dflt | Some v \<Rightarrow> v)"

text \<open>\<^verbatim>\<open>d[k] = v\<close> on a dict: an existing key keeps its place, a new key goes last.\<close>

fun py_set :: "'f doc \<Rightarrow> string \<Rightarrow> 'f bson \<Rightarrow> 'f doc" where
  "py_set [] k v = [(k, v)]"
| "py_set ((k', v') # d) k v = (if k' = k then (k, v) # d else (k', v') # py_set d k v)"

text \<open>Truth value of a stored value, as \<^verbatim>\<open>if x\<close> and \<^verbatim>\<open>not x\<close> read it.\<close>

fun truthy :: "'f runtime \<Rightarrow> 'f bson \<Rightarrow> bool" where
  "truthy A VNull = False"
| "truthy A (VBool b) = b"
| "truthy A (VInt i) = (i \<noteq> 0)"
| "truthy A (VFloat x) = (\<not> float_is_zero A x)"
| "truthy A (VStr s) = (s \<noteq> [])"
| "truthy A (VOid b) = True"
| "truthy A (VList xs) = (xs \<noteq> [])"
| "truthy A (VDoc d) = (d \<noteq> [])"

text \<open>\<^verbatim>\<open>float(v)\<close>: a number converts, a string is parsed, anything else is a TypeError.\<close>

fun py_float :: "'f runtime \<Rightarrow> 'f bson \<Rightarrow> error + 'f" where
  "py_float A (VFloat x) = Inr x"
| "py_float A (VInt i) = Inr (float_of_int A i)"
| "py_float A (VBool b) = Inr (float_of_int A (if b then 1 else 0))"
| "py_float A (VStr s) = (case float_of_str A s of None \<Rightarrow> Inl ValueError | Some x \<Rightarrow> Inr x)"
| "py_float A VNull = Inl TypeError"
| "py_float A (VOid b) = Inl TypeError"
| "py_float A (VList xs) = Inl TypeError"
| "py_float A (VDoc d) = Inl TypeError"

text \<open>
  What \<^verbatim>\<open>for s in v\<close> runs over: the elements of an array, the keys of a dict, the
  characters of a string; any other value is not iterable.
\<close>

fun py_iter :: "'f bson \<Rightarrow> error + 'f bson list" where
  "py_iter (VList xs) = Inr xs"
| "py_iter (VDoc d) = Inr (map (\<lambda>kv. VStr (fst kv)) d)"
| "py_iter (VStr s) = Inr (map (\<lambda>c. VStr [c]) s)"
| "py_iter VNull = Inl TypeError"
| "py_iter (VBool b) = Inl TypeError"
| "py_iter (VInt i) = Inl TypeError"
| "py_iter (VFloat x) = Inl TypeError"
| "py_iter (VOid b) = Inl TypeError"

subsection \<open>ObjectId\<close>

text \<open>
  \<^verbatim>\<open>ObjectId(s)\<close> of the driver's \<^verbatim>\<open>bson\<close> package, for a string: the string must have 24
  characters and \<^verbatim>\<open>bytes.fromhex\<close> must accept it, otherwise \<^verbatim>\<open>InvalidId\<close> is raised.
  \<^verbatim>\<open>bytes.fromhex\<close> skips ASCII whitespace between pairs of hexadecimal digits.
  \<^verbatim>\<open>str\<close> of an ObjectId is the lower-case hexadecimal text of its bytes.
\<close>

definition hexval :: "char \<Rightarrow> nat option" where
  "hexval c =
     (let n = (of_char c :: nat) in
      if 48 \<le> n \<and> n \<le> 57 then Some (n - 48)
      else if 97 \<le> n \<and> n \<le> 102 then Some (n - 87)
      else if 65 \<le> n \<and> n \<le> 70 then Some (n - 55)
      else None)"

definition isspace :: "char \<Rightarrow> bool" where
  "isspace c = ((of_char c :: nat) \<in> {9, 10, 11, 12, 13, 32})"

fun fromhex :: "string \<Rightarrow> nat list option" where
  "fromhex [] = Some []"
| "fromhex [c] = (if isspace c then Some [] else None)"
| "fromhex (c # d # cs) =
     (if isspace c then fromhex (d # cs)
      else (case (hexval c, hexval d) of
              (Some h, Some l) \<Rightarrow> map_option ((#) (16 * h + l)) (fromhex cs)
            | _ \<Rightarrow> None))"

definition ObjectId :: "string \<Rightarrow> error + nat list" where
  "ObjectId oid =
     (if length oid = 24
      then (case fromhex oid of None \<Rightarrow> Inl InvalidId | Some b \<Rightarrow> Inr b)
      else Inl InvalidId)"

definition hexdigit :: "nat \<Rightarrow> char" where
  "hexdigit n = ''0123456789abcdef'' ! (n mod 16)"

definition hexlify :: "nat list \<Rightarrow> string" where
  "hexlify bs = concat (map (\<lambda>b. [hexdigit (b div 16), hexdigit b]) bs)"

text \<open>\<^verbatim>\<open>str(v)\<close>.\<close>

fun py_str :: "'f runtime \<Rightarrow> 'f bson \<Rightarrow> string" where
  "py_str A VNull = ''None''"
| "py_str A (VBool b) = (if b then ''True'' else ''False'')"
| "py_str A (VStr s) = s"
| "py_str A (VOid b) = hexlify b"
| "py_str A v = str_other A v"

section \<open>The document store\<close>

text \<open>
  The store maps a collection name to its documents, in insertion order, and holds the
  counter from which the next identifier is generated.
\<close>

record 'f database =
  collections :: "string \<Rightarrow> 'f doc list"
  next_oid :: nat

text \<open>
  \<^verbatim>\<open>db[c].find_one({"_id": oid})\<close> of the driver: the first document of the collection whose
  \<^verbatim>\<open>_id\<close> is that ObjectId, or \<^verbatim>\<open>None\<close>.
\<close>

definition find_one :: "'f doc list \<Rightarrow> nat list \<Rightarrow> 'f doc option" where
  "find_one docs oid = List.find (\<lambda>d. map_of d ''_id'' = Some (VOid oid)) docs"

text \<open>
  Modelled from the spec: \<^verbatim>\<open>get_documents\<close> and \<^verbatim>\<open>create_document\<close> of the module
  \<^verbatim>\<open>database\<close>, which is not among the sources. The spec describes them as the store's
  \<open>findAll(collection) -> sequence of doc\<close> and \<open>insert(collection, doc) -> id\<close>: the first
  returns every document of the collection, the second appends the document under a
  newly generated identifier and returns that identifier as a string.
\<close>

definition get_documents :: "'f database \<Rightarrow> string \<Rightarrow> 'f doc list" where
  "get_documents st c = collections st c"

definition oid_of_nat :: "nat \<Rightarrow> nat list" where
  "oid_of_nat n = map (\<lambda>i. (n div 256 ^ (11 - i)) mod 256) [0, 1, 2, 3, 4, 5, 6, 7, 8, 9, 10, 11]"

definition create_document :: "'f database \<Rightarrow> string \<Rightarrow> 'f doc \<Rightarrow> string \<times> 'f database" where
  "create_document st c d =
     (let oid = oid_of_nat (next_oid st) in
      (hexlify oid,
       st\<lparr>collections := (collections st)(c := collections st c @ [(''_id'', VOid oid) # d]),
          next_oid := Suc (next_oid st)\<rparr>))"

section \<open>Booking creation\<close>

record 'f CreateBookingRequest =
  cleaner_id :: string
  service_name :: string
  scheduled_time :: string
  customer_name :: string
  customer_phone :: string
  customer_email :: "string option"
  address :: "string option"
  lat :: "'f option"
  lng :: "'f option"
  car_make :: "string option"
  car_model :: "string option"
  car_color :: "string option"
  car_plate :: "string option"
  notes' :: "string option"

text \<open>The dict \<^verbatim>\<open>create_booking\<close> returns.\<close>

record 'f receipt =
  booking_id :: string
  total_price :: 'f
  commission_amount :: 'f
  net_amount :: 'f
  message :: string

definition opt_str :: "string option \<Rightarrow> 'f bson" where
  "opt_str s = (case s of None \<Rightarrow> VNull | Some x \<Rightarrow> VStr x)"

definition opt_float :: "'f option \<Rightarrow> 'f bson" where
  "opt_float x = (case x of None \<Rightarrow> VNull | Some y \<Rightarrow> VFloat y)"

text \<open>The dict \<^verbatim>\<open>booking_doc\<close> of \<^verbatim>\<open>create_booking\<close> (lines 189 to 218).\<close>

definition booking_doc ::
  "'f CreateBookingRequest \<Rightarrow> 'f \<Rightarrow> 'f \<Rightarrow> 'f \<Rightarrow> 'f \<Rightarrow> 'f \<Rightarrow> 'f doc" where
  "booking_doc payload service_price total_amt commission_rate commission_amt net_amt =
     [(''cleaner_id'', VStr (cleaner_id payload)),
      (''service_name'', VStr (service_name payload)),
      (''service_price'', VFloat service_price),
      (''scheduled_time'', VStr (scheduled_time payload)),
      (''location'', VDoc [(''lat'', opt_float (lat payload)),
                           (''lng'', opt_float (lng payload)),
                           (''address'', opt_str (address payload))]),
      (''customer'', VDoc [(''name'', VStr (customer_name payload)),
                           (''phone'', VStr (customer_phone payload)),
                           (''email'', opt_str (customer_email payload))]),
      (''car'', VDoc [(''make'', opt_str (car_make payload)),
                      (''model'', opt_str (car_model payload)),
                      (''color'', opt_str (car_color payload)),
                      (''plate'', opt_str (car_plate payload))]),
      (''notes'', opt_str (notes' payload)),
      (''total_price'', VFloat total_amt),
      (''commission_rate'', VFloat commission_rate),
      (''commission_amount'', VFloat commission_amt),
      (''net_amount'', VFloat net_amt),
      (''status'', VStr ''pending''),
      (''payment_status'', VStr ''unpaid''),
      (''payment_reference'', VNull)]"

text \<open>
  The loop that finds the chosen service (lines 173 to 177): the first element \<open>s\<close> with
  \<^verbatim>\<open>s.get("name") == payload.service_name\<close>. An element that is no dict has no \<^verbatim>\<open>get\<close>.
\<close>

fun service_loop :: "'f bson list \<Rightarrow> string \<Rightarrow> error + 'f doc option" where
  "service_loop [] sn = Inr None"
| "service_loop (VDoc s # ss) sn =
     (if py_get s ''name'' VNull = VStr sn then Inr (Some s) else service_loop ss sn)"
| "service_loop (v # ss) sn = Inl AttributeError"

definition find_chosen_service :: "'f doc \<Rightarrow> string \<Rightarrow> error + 'f doc option" where
  "find_chosen_service cleaner sn =
     (case py_iter (py_get cleaner ''services'' (VList [])) of
        Inl e \<Rightarrow> Inl e
      | Inr ss \<Rightarrow> service_loop ss sn)"

text \<open>
  \<^verbatim>\<open>create_booking\<close> (lines 163 to 228). \<open>db\<close> is the handle of the module \<^verbatim>\<open>database\<close>,
  \<open>None\<close> when no store is available. The result pairs what the handler returns or raises
  with the handle after the call.
\<close>

definition create_booking ::
  "'f runtime \<Rightarrow> 'f database option \<Rightarrow> 'f CreateBookingRequest
     \<Rightarrow> (error + 'f receipt) \<times> 'f database option" where
  "create_booking A db payload =
     (case db of
        None \<Rightarrow> (Inl (HTTPException 500 ''Database not configured''), db)
      | Some st \<Rightarrow>
     (case ObjectId (cleaner_id payload) of
        Inl e \<Rightarrow> (Inl e, db)
      | Inr oid \<Rightarrow>
     (case find_one (collections st ''cleaner'') oid of
        None \<Rightarrow> (Inl (HTTPException 404 ''Cleaner not found''), db)
      | Some cleaner \<Rightarrow>
     if cleaner = [] then (Inl (HTTPException 404 ''Cleaner not found''), db)
     else
     (case find_chosen_service cleaner (service_name payload) of
        Inl e \<Rightarrow> (Inl e, db)
      | Inr None \<Rightarrow> (Inl (HTTPException 400 ''Service not offered by cleaner''), db)
      | Inr (Some service) \<Rightarrow>
     if service = [] then (Inl (HTTPException 400 ''Service not offered by cleaner''), db)
     else
     (case py_float A (py_get service ''price'' (VInt 0)) of
        Inl e \<Rightarrow> (Inl e, db)
      | Inr service_price \<Rightarrow>
     (case py_float A (py_get cleaner ''base_callout_fee'' (VInt 0)) of
        Inl e \<Rightarrow> (Inl e, db)
      | Inr callout \<Rightarrow>
     (let total_amt = fadd A service_price callout;
          commission_rate = float_0_1 A;
          commission_amt = round2 A (fmul A total_amt commission_rate);
          net_amt = round2 A (fsub A total_amt commission_amt);
          (new_id, st') = create_document st ''booking''
             (booking_doc payload service_price total_amt commission_rate commission_amt net_amt)
      in (Inr \<lparr>booking_id = new_id,
                total_price = total_amt,
                commission_amount = commission_amt,
                net_amount = net_amt,
                message = ''Booking created. Proceed to payment to confirm.''\<rparr>,
          Some st'))))))))"

section \<open>A configured store that cannot be reached\<close>

text \<open>
  The handle \<open>db\<close> is \<open>None\<close> when no store is configured. A configured handle need not
  reach its server: the handler \<^verbatim>\<open>test_database\<close> (lines 52 to 62) expects exactly that, a
  handle that is not \<open>None\<close> and whose operation raises. The driver then raises
  \<open>ServerSelectionTimeoutError\<close> from the operation that needs the server.
\<close>

datatype 'f handle = Unreachable | Reachable "'f database"

text \<open>
  \<^verbatim>\<open>create_booking\<close> over such a handle. The guard of line 165 tests only whether the
  handle is \<open>None\<close>. With a handle that reaches its store the handler is \<open>create_booking\<close>
  above. With one that does not, the guard passes, \<^verbatim>\<open>ObjectId(payload.cleaner_id)\<close> is
  evaluated and \<^verbatim>\<open>find_one\<close> (line 168) is called, which raises the driver's error.
\<close>

definition create_booking_on ::
  "'f runtime \<Rightarrow> 'f handle option \<Rightarrow> 'f CreateBookingRequest
     \<Rightarrow> (error + 'f receipt) \<times> 'f handle option" where
  "create_booking_on A db payload =
     (case db of
        None \<Rightarrow> (Inl (HTTPException 500 ''Database not configured''), db)
      | Some Unreachable \<Rightarrow>
          (case ObjectId (cleaner_id payload) of
             Inl e \<Rightarrow> (Inl e, db)
           | Inr oid \<Rightarrow> (Inl ServerSelectionTimeoutError, db))
      | Some (Reachable st) \<Rightarrow>
          (case create_booking A (Some st) payload of
             (res, db') \<Rightarrow> (res, map_option Reachable db')))"

section \<open>Listing cleaners\<close>

text \<open>The models \<^verbatim>\<open>ServiceOption\<close> (\<^verbatim>\<open>schemas.py\<close>) and \<^verbatim>\<open>CleanerResponse\<close> (\<^verbatim>\<open>main.py\<close>).\<close>

record 'f ServiceOption =
  name :: string
  description :: "string option"
  price :: 'f
  duration_minutes :: int

record 'f CleanerResponse =
  cr_id :: string
  cr_name :: string
  cr_rating :: 'f
  cr_total_reviews :: int
  cr_is_available :: bool
  cr_photo_url :: "string option"
  cr_bio :: "string option"
  cr_services :: "'f ServiceOption list"
  cr_location :: "'f doc"
  cr_base_callout_fee :: 'f

text \<open>
  Validation of one field by the validation library: a value of the declared type is
  taken as it is, an integer is taken for a double, and every other value goes through
  the library's conversions (\<open>lax_float\<close> and the like), which differ between the
  library's versions and are left open. \<open>None\<close> is a validation error.
\<close>

definition validate_str :: "'f runtime \<Rightarrow> 'f bson \<Rightarrow> string option" where
  "validate_str A v = (case v of VStr s \<Rightarrow> Some s | _ \<Rightarrow> lax_str A v)"

definition validate_opt_str :: "'f runtime \<Rightarrow> 'f bson \<Rightarrow> string option option" where
  "validate_opt_str A v = (case v of VNull \<Rightarrow> Some None | _ \<Rightarrow> map_option Some (validate_str A v))"

definition validate_float :: "'f runtime \<Rightarrow> 'f bson \<Rightarrow> 'f option" where
  "validate_float A v =
     (case v of VFloat x \<Rightarrow> Some x | VInt i \<Rightarrow> Some (float_of_int A i) | _ \<Rightarrow> lax_float A v)"

definition validate_int :: "'f runtime \<Rightarrow> 'f bson \<Rightarrow> int option" where
  "validate_int A v = (case v of VInt i \<Rightarrow> Some i | _ \<Rightarrow> lax_int A v)"

definition validate_bool :: "'f runtime \<Rightarrow> 'f bson \<Rightarrow> bool option" where
  "validate_bool A v = (case v of VBool b \<Rightarrow> Some b | _ \<Rightarrow> lax_bool A v)"

definition validate_dict :: "'f runtime \<Rightarrow> 'f bson \<Rightarrow> 'f doc option" where
  "validate_dict A v = (case v of VDoc d \<Rightarrow> Some d | _ \<Rightarrow> lax_dict A v)"

text \<open>
  \<^verbatim>\<open>ServiceOption\<close> built from a dict: \<open>name\<close>, \<open>price\<close> (\<open>ge=0\<close>) and \<open>duration_minutes\<close>
  (\<open>ge=10, le=600\<close>) are required, \<open>description\<close> defaults to \<open>None\<close>.
\<close>

definition validate_ServiceOption :: "'f runtime \<Rightarrow> 'f bson \<Rightarrow> 'f ServiceOption option" where
  "validate_ServiceOption A v =
     (case validate_dict A v of
        None \<Rightarrow> None
      | Some d \<Rightarrow>
          Option.bind (map_of d ''name'') (\<lambda>n.
          Option.bind (map_of d ''price'') (\<lambda>p.
          Option.bind (map_of d ''duration_minutes'') (\<lambda>m.
          Option.bind (validate_str A n) (\<lambda>n'.
          Option.bind (validate_opt_str A (py_get d ''description'' VNull)) (\<lambda>d'.
          Option.bind (validate_float A p) (\<lambda>p'.
          Option.bind (validate_int A m) (\<lambda>m'.
            if float_ge0 A p' \<and> 10 \<le> m' \<and> m' \<le> 600
            then Some \<lparr>name = n', description = d', price = p', duration_minutes = m'\<rparr>
            else None))))))))"

definition validate_services :: "'f runtime \<Rightarrow> 'f bson \<Rightarrow> 'f ServiceOption list option" where
  "validate_services A v =
     (case v of VList xs \<Rightarrow> those (map (validate_ServiceOption A) xs) | _ \<Rightarrow> None)"

text \<open>The constructor call \<^verbatim>\<open>CleanerResponse(id=..., ..., base_callout_fee=...)\<close>.\<close>

definition new_CleanerResponse ::
  "'f runtime \<Rightarrow> string \<Rightarrow> 'f bson \<Rightarrow> 'f bson \<Rightarrow> 'f bson \<Rightarrow> 'f bson \<Rightarrow> 'f bson \<Rightarrow> 'f bson
     \<Rightarrow> 'f bson \<Rightarrow> 'f bson \<Rightarrow> 'f bson \<Rightarrow> error + 'f CleanerResponse" where
  "new_CleanerResponse A i n rt tr av ph bi sv lo fee =
     (case Option.bind (validate_str A n) (\<lambda>n'.
           Option.bind (validate_float A rt) (\<lambda>rt'.
           Option.bind (validate_int A tr) (\<lambda>tr'.
           Option.bind (validate_bool A av) (\<lambda>av'.
           Option.bind (validate_opt_str A ph) (\<lambda>ph'.
           Option.bind (validate_opt_str A bi) (\<lambda>bi'.
           Option.bind (validate_services A sv) (\<lambda>sv'.
           Option.bind (validate_dict A lo) (\<lambda>lo'.
           Option.bind (validate_float A fee) (\<lambda>fee'.
             Some \<lparr>cr_id = i, cr_name = n', cr_rating = rt', cr_total_reviews = tr',
                   cr_is_available = av', cr_photo_url = ph', cr_bio = bi',
                   cr_services = sv', cr_location = lo',
                   cr_base_callout_fee = fee'\<rparr>))))))))) of
        None \<Rightarrow> Inl ValidationError
      | Some r \<Rightarrow> Inr r)"

text \<open>The body of the loop of \<^verbatim>\<open>list_cleaners\<close> (lines 131 to 142), for one document.\<close>

definition cleaner_response :: "'f runtime \<Rightarrow> 'f doc \<Rightarrow> error + 'f CleanerResponse" where
  "cleaner_response A d =
     new_CleanerResponse A
       (py_str A (py_get d ''_id'' VNull))
       (py_get d ''name'' VNull)
       (py_get d ''rating'' (VInt 0))
       (py_get d ''total_reviews'' (VInt 0))
       (py_get d ''is_available'' (VBool True))
       (py_get d ''photo_url'' VNull)
       (py_get d ''bio'' VNull)
       (py_get d ''services'' (VList []))
       (py_get d ''location'' (VDoc []))
       (py_get d ''base_callout_fee'' (VFloat (float_of_int A 0)))"

fun cleaners_loop :: "'f runtime \<Rightarrow> 'f doc list \<Rightarrow> error + 'f CleanerResponse list" where
  "cleaners_loop A [] = Inr []"
| "cleaners_loop A (d # ds) =
     (case cleaner_response A d of
        Inl e \<Rightarrow> Inl e
      | Inr r \<Rightarrow> (case cleaners_loop A ds of Inl e \<Rightarrow> Inl e | Inr rs \<Rightarrow> Inr (r # rs)))"

text \<open>\<^verbatim>\<open>list_cleaners\<close> (lines 122 to 143).\<close>

definition list_cleaners ::
  "'f runtime \<Rightarrow> 'f database option \<Rightarrow> 'f option \<Rightarrow> 'f option \<Rightarrow> 'f
     \<Rightarrow> error + 'f CleanerResponse list" where
  "list_cleaners A db lat_q lng_q radius_km =
     (case db of
        None \<Rightarrow> Inl (HTTPException 500 ''Database not configured'')
      | Some st \<Rightarrow> cleaners_loop A (get_documents st ''cleaner''))"

section \<open>Listing bookings\<close>

text \<open>
  The body of the loop of \<^verbatim>\<open>list_bookings\<close> (line 238):
  \<^verbatim>\<open>d["_id"] = str(d["_id"]) if d.get("_id") else None\<close>.
\<close>

definition stringify_id :: "'f runtime \<Rightarrow> 'f doc \<Rightarrow> error + 'f doc" where
  "stringify_id A d =
     (if truthy A (py_get d ''_id'' VNull)
      then (case map_of d ''_id'' of
              None \<Rightarrow> Inl KeyError
            | Some v \<Rightarrow> Inr (py_set d ''_id'' (VStr (py_str A v))))
      else Inr (py_set d ''_id'' VNull))"

fun bookings_loop :: "'f runtime \<Rightarrow> 'f doc list \<Rightarrow> error + 'f doc list" where
  "bookings_loop A [] = Inr []"
| "bookings_loop A (d # ds) =
     (case stringify_id A d of
        Inl e \<Rightarrow> Inl e
      | Inr d' \<Rightarrow> (case bookings_loop A ds of Inl e \<Rightarrow> Inl e | Inr ds' \<Rightarrow> Inr (d' # ds')))"

text \<open>\<^verbatim>\<open>list_bookings\<close> (lines 231 to 239).\<close>

definition list_bookings :: "'f runtime \<Rightarrow> 'f database option \<Rightarrow> error + 'f doc list" where
  "list_bookings A db =
     (case db of
        None \<Rightarrow> Inl (HTTPException 500 ''Database not configured'')
      | Some st \<Rightarrow> bookings_loop A (get_documents st ''booking''))"

section \<open>Stored cleaners as the data model describes them\<close>

text \<open>
  The shape of a stored cleaner: a name, and where present a numeric rating, an integer
  review count, a boolean availability flag, photo and bio that are strings or null, a
  list of services, a location document and a numeric callout fee. A service has a name,
  a price that is a number not below zero, a duration of 10 to 600 minutes and, where
  present, a description that is a string or null.
\<close>

definition absent_or :: "('f bson \<Rightarrow> bool) \<Rightarrow> 'f doc \<Rightarrow> string \<Rightarrow> bool" where
  "absent_or P d k = (case map_of d k of None \<Rightarrow> True | Some v \<Rightarrow> P v)"

definition is_str :: "'f bson \<Rightarrow> bool" where
  "is_str v = (case v of VStr s \<Rightarrow> True | _ \<Rightarrow> False)"

definition is_opt_str :: "'f bson \<Rightarrow> bool" where
  "is_opt_str v = (case v of VStr s \<Rightarrow> True | VNull \<Rightarrow> True | _ \<Rightarrow> False)"

definition is_number :: "'f bson \<Rightarrow> bool" where
  "is_number v = (case v of VFloat x \<Rightarrow> True | VInt i \<Rightarrow> True | _ \<Rightarrow> False)"

definition is_int :: "'f bson \<Rightarrow> bool" where
  "is_int v = (case v of VInt i \<Rightarrow> True | _ \<Rightarrow> False)"

definition is_bool :: "'f bson \<Rightarrow> bool" where
  "is_bool v = (case v of VBool b \<Rightarrow> True | _ \<Rightarrow> False)"

definition is_dict :: "'f bson \<Rightarrow> bool" where
  "is_dict v = (case v of VDoc d \<Rightarrow> True | _ \<Rightarrow> False)"

definition service_doc_ok :: "'f runtime \<Rightarrow> 'f bson \<Rightarrow> bool" where
  "service_doc_ok A v =
     (case v of
        VDoc s \<Rightarrow>
          (case map_of s ''name'' of Some n \<Rightarrow> is_str n | None \<Rightarrow> False)
          \<and> absent_or is_opt_str s ''description''
          \<and> (case map_of s ''price'' of
                Some (VFloat x) \<Rightarrow> float_ge0 A x
              | Some (VInt i) \<Rightarrow> float_ge0 A (float_of_int A i)
              | _ \<Rightarrow> False)
          \<and> (case map_of s ''duration_minutes'' of
                Some (VInt m) \<Rightarrow> 10 \<le> m \<and> m \<le> 600
              | _ \<Rightarrow> False)
      | _ \<Rightarrow> False)"

definition is_service_list :: "'f runtime \<Rightarrow> 'f bson \<Rightarrow> bool" where
  "is_service_list A v = (case v of VList xs \<Rightarrow> list_all (service_doc_ok A) xs | _ \<Rightarrow> False)"

definition cleaner_doc_ok :: "'f runtime \<Rightarrow> 'f doc \<Rightarrow> bool" where
  "cleaner_doc_ok A d =
     ((case map_of d ''name'' of Some n \<Rightarrow> is_str n | None \<Rightarrow> False)
      \<and> absent_or is_number d ''rating''
      \<and> absent_or is_int d ''total_reviews''
      \<and> absent_or is_bool d ''is_available''
      \<and> absent_or is_opt_str d ''photo_url''
      \<and> absent_or is_opt_str d ''bio''
      \<and> absent_or (is_service_list A) d ''services''
      \<and> absent_or is_dict d ''location''
      \<and> absent_or is_number d ''base_callout_fee'')"

text \<open>
  What the listing promises of one projection, in the words of the spec: photo and bio
  are there, null when the stored record has none; the services, the location and the
  callout fee are the stored ones.
\<close>

definition opt_text :: "'f doc \<Rightarrow> string \<Rightarrow> string option" where
  "opt_text d k = (case map_of d k of Some (VStr s) \<Rightarrow> Some s | _ \<Rightarrow> None)"

definition number_of :: "'f runtime \<Rightarrow> 'f bson \<Rightarrow> 'f" where
  "number_of A v = (case v of VFloat x \<Rightarrow> x | VInt i \<Rightarrow> float_of_int A i | _ \<Rightarrow> float_of_int A 0)"

definition surfaces_service :: "'f runtime \<Rightarrow> 'f bson \<Rightarrow> 'f ServiceOption \<Rightarrow> bool" where
  "surfaces_service A v so =
     (case v of
        VDoc s \<Rightarrow>
          map_of s ''name'' = Some (VStr (name so))
          \<and> description so = opt_text s ''description''
          \<and> price so = number_of A (py_get s ''price'' VNull)
          \<and> map_of s ''duration_minutes'' = Some (VInt (duration_minutes so))
      | _ \<Rightarrow> False)"

definition surfaces :: "'f runtime \<Rightarrow> 'f doc \<Rightarrow> 'f CleanerResponse \<Rightarrow> bool" where
  "surfaces A d r =
     (cr_photo_url r = opt_text d ''photo_url''
      \<and> cr_bio r = opt_text d ''bio''
      \<and> list_all2 (surfaces_service A)
           (case map_of d ''services'' of Some (VList xs) \<Rightarrow> xs | _ \<Rightarrow> []) (cr_services r)
      \<and> cr_location r = (case map_of d ''location'' of Some (VDoc l) \<Rightarrow> l | _ \<Rightarrow> [])
      \<and> cr_base_callout_fee r = number_of A (py_get d ''base_callout_fee'' VNull))"

section \<open>A runtime and a store to evaluate the handlers on\<close>

text \<open>
  Exact decimal arithmetic, with \<open>round(x, 2)\<close> rounding halves to the even neighbour. It
  stands in for binary64 where a handler is evaluated on an example; no theorem about
  the handlers depends on it.
\<close>

definition round_half_even :: "rat \<Rightarrow> int" where
  "round_half_even x =
     (let n = \<lfloor>x\<rfloor>; r = x - of_int n in
      if r < 1 / 2 then n else if 1 / 2 < r then n + 1 else if even n then n else n + 1)"

definition decimal :: "rat runtime" where
  "decimal =
     \<lparr>fadd = (+), fsub = (-), fmul = (*),
      round2 = (\<lambda>x. of_int (round_half_even (x * 100)) / 100),
      float_0_1 = 1 / 10,
      float_of_int = of_int,
      float_of_str = (\<lambda>s. None),
      float_ge0 = (\<lambda>x. 0 \<le> x),
      float_is_zero = (\<lambda>x. x = 0),
      str_other = (\<lambda>v. []),
      lax_float = (\<lambda>v. None),
      lax_int = (\<lambda>v. None),
      lax_bool = (\<lambda>v. None),
      lax_str = (\<lambda>v. None),
      lax_dict = (\<lambda>v. None)\<rparr>"

text \<open>The first demo cleaner of \<^verbatim>\<open>seed_cleaners\<close> (lines 84 to 99), as the store holds it.\<close>

definition sparkle_services :: "rat doc list" where
  "sparkle_services =
     [[(''name'', VStr ''Exterior Wash''), (''description'', VStr ''Foam wash & dry''),
       (''price'', VInt 25), (''duration_minutes'', VInt 30)],
      [(''name'', VStr ''Interior Clean''), (''description'', VStr ''Vacuum & wipe down''),
       (''price'', VInt 35), (''duration_minutes'', VInt 45)],
      [(''name'', VStr ''Full Detail''), (''description'', VStr ''In & Out premium detail''),
       (''price'', VInt 99), (''duration_minutes'', VInt 120)]]"

definition sparkle :: "rat doc" where
  "sparkle =
     [(''_id'', VOid [101, 1, 2, 3, 4, 5, 6, 7, 8, 9, 10, 171]),
      (''name'', VStr ''Sparkle Pro Detailing''),
      (''phone'', VStr ''+1-555-0110''),
      (''bio'', VStr ''Premium mobile car wash & detailing''),
      (''photo_url'', VStr ''https://images.unsplash.com/photo-1609137144813-7d9921338f9b?w=800''),
      (''rating'', VFloat (49 / 10)),
      (''total_reviews'', VInt 128),
      (''is_available'', VBool True),
      (''location'', VDoc [(''lat'', VFloat (37773972 / 1000000)),
                           (''lng'', VFloat (- (122431297 / 1000000))),
                           (''address'', VStr ''San Francisco, CA'')]),
      (''base_callout_fee'', VInt 5),
      (''services'', VList (map VDoc sparkle_services))]"

definition seeded :: "rat database" where
  "seeded = \<lparr>collections = (\<lambda>c. if c = ''cleaner'' then [sparkle] else []), next_oid = 7\<rparr>"

text \<open>A cleaner stored without a callout fee, whose one service is stored without a price.\<close>

definition unpriced :: "rat doc" where
  "unpriced =
     [(''_id'', VOid [101, 1, 2, 3, 4, 5, 6, 7, 8, 9, 10, 172]),
      (''name'', VStr ''Unpriced''),
      (''services'', VList [VDoc [(''name'', VStr ''Wash''), (''duration_minutes'', VInt 30)]])]"

definition sparse :: "rat database" where
  "sparse = \<lparr>collections = (\<lambda>c. if c = ''cleaner'' then [unpriced] else []), next_oid = 0\<rparr>"

definition request :: "string \<Rightarrow> string \<Rightarrow> rat CreateBookingRequest" where
  "request cid sn =
     \<lparr>cleaner_id = cid, service_name = sn, scheduled_time = ''2025-01-01T10:00:00'',
      customer_name = ''Ann'', customer_phone = ''555-0100'', customer_email = None,
      address = None, lat = None, lng = None, car_make = None, car_model = None,
      car_color = None, car_plate = None, notes' = None\<rparr>"

text \<open>A cleaner stored with a name only, and a catalog that holds it after the demo cleaner.\<close>

definition plain :: "rat doc" where
  "plain = [(''_id'', VOid [101, 1, 2, 3, 4, 5, 6, 7, 8, 9, 10, 173]), (''name'', VStr ''Plain'')]"

definition catalog :: "rat database" where
  "catalog = \<lparr>collections = (\<lambda>c. if c = ''cleaner'' then [sparkle, plain] else []), next_oid = 7\<rparr>"

text \<open>The seeded store after one booking of the service \<open>Full Detail\<close>.\<close>

definition booked :: "rat database" where
  "booked =
     snd (create_document seeded ''booking''
       (booking_doc (request ''650102030405060708090aab'' ''Full Detail'')
          99 104 (1 / 10) (52 / 5) (468 / 5)))"

section \<open>Facts about the primitives and the booking handler\<close>

lemma py_get_absent: "map_of d k = None \<Longrightarrow> py_get d k dflt = dflt"
  by (simp add: py_get_def)

lemma find_one_SomeD:
  "find_one docs oid = Some d \<Longrightarrow> d \<in> set docs \<and> map_of d ''_id'' = Some (VOid oid)"
  unfolding find_one_def by (auto simp: find_Some_iff)

lemma find_one_nonempty: "find_one docs oid = Some d \<Longrightarrow> d \<noteq> []"
  by (auto dest: find_one_SomeD)

lemma service_loop_SomeD:
  "service_loop ss sn = Inr (Some s) \<Longrightarrow>
     \<exists>pre post. ss = map VDoc pre @ VDoc s # post
        \<and> py_get s ''name'' VNull = VStr sn
        \<and> list_all (\<lambda>e. py_get e ''name'' VNull \<noteq> VStr sn) pre"
proof (induction ss sn rule: service_loop.induct)
  case (2 s' ss sn)
  show ?case
  proof (cases "py_get s' ''name'' VNull = VStr sn")
    case True
    with 2 have "s = s'" by simp
    with True have "VDoc s' # ss = map VDoc [] @ VDoc s # ss \<and> py_get s ''name'' VNull = VStr sn
       \<and> list_all (\<lambda>e. py_get e ''name'' VNull \<noteq> VStr sn) []" by simp
    then show ?thesis by blast
  next
    case False
    with 2 obtain pre post where h: "ss = map VDoc pre @ VDoc s # post"
      "py_get s ''name'' VNull = VStr sn" "list_all (\<lambda>e. py_get e ''name'' VNull \<noteq> VStr sn) pre"
      by auto
    with False have "VDoc s' # ss = map VDoc (s' # pre) @ VDoc s # post \<and> py_get s ''name'' VNull = VStr sn
       \<and> list_all (\<lambda>e. py_get e ''name'' VNull \<noteq> VStr sn) (s' # pre)" by simp
    then show ?thesis by blast
  qed
qed simp_all

lemma service_loop_first:
  "list_all (\<lambda>e. py_get e ''name'' VNull \<noteq> VStr sn) pre \<Longrightarrow> py_get s ''name'' VNull = VStr sn \<Longrightarrow>
     service_loop (map VDoc pre @ VDoc s # post) sn = Inr (Some s)"
  by (induction pre) auto

lemma service_loop_none:
  "list_all (\<lambda>e. py_get e ''name'' VNull \<noteq> VStr sn) ss \<Longrightarrow> service_loop (map VDoc ss) sn = Inr None"
  by (induction ss) auto

lemma chosen_nonempty: "service_loop ss sn = Inr (Some s) \<Longrightarrow> s \<noteq> []"
  by (auto dest!: service_loop_SomeD simp: py_get_def)

lemma create_booking_InrD:
  assumes "create_booking A db payload = (Inr r, db')"
  shows "\<exists>st oid cleaner service p c.
           db = Some st
         \<and> ObjectId (cleaner_id payload) = Inr oid
         \<and> find_one (collections st ''cleaner'') oid = Some cleaner
         \<and> find_chosen_service cleaner (service_name payload) = Inr (Some service)
         \<and> py_float A (py_get service ''price'' (VInt 0)) = Inr p
         \<and> py_float A (py_get cleaner ''base_callout_fee'' (VInt 0)) = Inr c
         \<and> total_price r = fadd A p c
         \<and> commission_amount r = round2 A (fmul A (fadd A p c) (float_0_1 A))
         \<and> net_amount r = round2 A (fsub A (fadd A p c) (commission_amount r))
         \<and> (booking_id r, the db') = create_document st ''booking''
               (booking_doc payload p (total_price r) (float_0_1 A) (commission_amount r) (net_amount r))
         \<and> db' \<noteq> None"
  using assms
  by (auto simp: create_booking_def Let_def split: option.splits sum.splits if_splits prod.splits)

lemma create_booking_priced:
  assumes "ObjectId (cleaner_id payload) = Inr oid"
      and "find_one (collections st ''cleaner'') oid = Some cleaner"
      and "find_chosen_service cleaner (service_name payload) = Inr (Some service)"
      and "py_float A (py_get service ''price'' (VInt 0)) = Inr p"
      and "py_float A (py_get cleaner ''base_callout_fee'' (VInt 0)) = Inr c"
  shows "\<exists>r st'. create_booking A (Some st) payload = (Inr r, Some st')
           \<and> total_price r = fadd A p c
           \<and> commission_amount r = round2 A (fmul A (fadd A p c) (float_0_1 A))
           \<and> net_amount r = round2 A (fsub A (fadd A p c) (commission_amount r))"
proof -
  have "cleaner \<noteq> []" using assms(2) by (rule find_one_nonempty)
  moreover have "service \<noteq> []"
    using assms(3) by (auto simp: find_chosen_service_def split: sum.splits dest: chosen_nonempty)
  ultimately show ?thesis using assms
    by (simp add: create_booking_def Let_def split: prod.splits)
qed

lemma create_booking_InlD:
  "create_booking A db payload = (Inl e, db') \<Longrightarrow> db' = db"
  by (auto simp: create_booking_def Let_def split: option.splits sum.splits if_splits prod.splits)

lemma py_get_VStr: "py_get d k VNull = VStr x \<longleftrightarrow> map_of d k = Some (VStr x)"
  by (simp add: py_get_def split: option.splits)

lemma sparkle_oid:
  "ObjectId ''650102030405060708090aab'' = Inr [101, 1, 2, 3, 4, 5, 6, 7, 8, 9, 10, 171]"
  by (simp add: ObjectId_def hexval_def isspace_def)

lemma sparkle_found:
  "find_one (collections seeded ''cleaner'') [101, 1, 2, 3, 4, 5, 6, 7, 8, 9, 10, 171] = Some sparkle"
  by (simp add: find_one_def seeded_def sparkle_def)

lemma full_detail_receipt:
  "fst (create_booking decimal (Some seeded) (request ''650102030405060708090aab'' ''Full Detail''))
     = Inr \<lparr>booking_id = ''000000000000000000000007'', total_price = 104,
            commission_amount = 52 / 5, net_amount = 468 / 5,
            message = ''Booking created. Proceed to payment to confirm.''\<rparr>"
  by (simp add: create_booking_def sparkle_oid find_one_def request_def sparkle_def sparkle_services_def
      find_chosen_service_def py_get_def decimal_def round_half_even_def create_document_def
      booking_doc_def hexlify_def oid_of_nat_def hexdigit_def Let_def seeded_def)

section \<open>Pricing of a booking\<close>

text \<open>
  Claim C1. Whenever \<open>create_booking\<close> creates a booking, the cleaner was found in the
  store under the requested identifier and the service is the one found in that cleaner's
  list; the total is the stored service price plus the stored callout fee, the commission
  is the total times the rate 0.1 rounded to two decimals, the net amount is the total
  minus the commission rounded to two decimals, and these are the amounts of the document
  handed to the store. Nothing else of the request enters: a request with the same cleaner
  identifier and service name gets the same three amounts.
\<close>

theorem booking_amounts:
  assumes "create_booking A db payload = (Inr r, db')"
  shows "\<exists>st oid cleaner service p c.
           db = Some st
         \<and> ObjectId (cleaner_id payload) = Inr oid
         \<and> find_one (collections st ''cleaner'') oid = Some cleaner
         \<and> find_chosen_service cleaner (service_name payload) = Inr (Some service)
         \<and> py_float A (py_get service ''price'' (VInt 0)) = Inr p
         \<and> py_float A (py_get cleaner ''base_callout_fee'' (VInt 0)) = Inr c
         \<and> total_price r = fadd A p c
         \<and> commission_amount r = round2 A (fmul A (total_price r) (float_0_1 A))
         \<and> net_amount r = round2 A (fsub A (total_price r) (commission_amount r))
         \<and> db' = Some (snd (create_document st ''booking''
               (booking_doc payload p (total_price r) (float_0_1 A) (commission_amount r) (net_amount r))))
         \<and> (\<forall>payload'. cleaner_id payload' = cleaner_id payload
                \<and> service_name payload' = service_name payload \<longrightarrow>
              (\<exists>r' db''. create_booking A db payload' = (Inr r', db'')
                 \<and> total_price r' = total_price r
                 \<and> commission_amount r' = commission_amount r
                 \<and> net_amount r' = net_amount r))"
proof -
  from create_booking_InrD[OF assms] obtain st oid cleaner service p c where h:
    "db = Some st" "ObjectId (cleaner_id payload) = Inr oid"
    "find_one (collections st ''cleaner'') oid = Some cleaner"
    "find_chosen_service cleaner (service_name payload) = Inr (Some service)"
    "py_float A (py_get service ''price'' (VInt 0)) = Inr p"
    "py_float A (py_get cleaner ''base_callout_fee'' (VInt 0)) = Inr c"
    "total_price r = fadd A p c"
    "commission_amount r = round2 A (fmul A (fadd A p c) (float_0_1 A))"
    "net_amount r = round2 A (fsub A (fadd A p c) (commission_amount r))"
    "(booking_id r, the db') = create_document st ''booking''
       (booking_doc payload p (total_price r) (float_0_1 A) (commission_amount r) (net_amount r))"
    "db' \<noteq> None"
    by blast
  have stored: "db' = Some (snd (create_document st ''booking''
       (booking_doc payload p (total_price r) (float_0_1 A) (commission_amount r) (net_amount r))))"
    using h(10,11) by (metis option.collapse snd_conv)
  have other: "\<exists>r' db''. create_booking A db payload' = (Inr r', db'')
                 \<and> total_price r' = total_price r
                 \<and> commission_amount r' = commission_amount r
                 \<and> net_amount r' = net_amount r"
    if eq: "cleaner_id payload' = cleaner_id payload \<and> service_name payload' = service_name payload"
    for payload'
  proof -
    have "\<exists>r' st'. create_booking A (Some st) payload' = (Inr r', Some st')
           \<and> total_price r' = fadd A p c
           \<and> commission_amount r' = round2 A (fmul A (fadd A p c) (float_0_1 A))
           \<and> net_amount r' = round2 A (fsub A (fadd A p c) (commission_amount r'))"
      using h(2,3,4,5,6) eq by (intro create_booking_priced) simp_all
    then show ?thesis using h(1,7,8,9) by auto
  qed
  have h8: "commission_amount r = round2 A (fmul A (total_price r) (float_0_1 A))"
    using h(7,8) by simp
  have h9: "net_amount r = round2 A (fsub A (total_price r) (commission_amount r))"
    using h(7,9) by simp
  from other have other_all:
    "\<forall>payload'. cleaner_id payload' = cleaner_id payload
        \<and> service_name payload' = service_name payload \<longrightarrow>
      (\<exists>r' db''. create_booking A db payload' = (Inr r', db'')
         \<and> total_price r' = total_price r
         \<and> commission_amount r' = commission_amount r
         \<and> net_amount r' = net_amount r)"
    by blast
  show ?thesis
    apply (rule exI[of _ st], rule exI[of _ oid], rule exI[of _ cleaner])
    apply (rule exI[of _ service], rule exI[of _ p], rule exI[of _ c])
    using h(1-7) h8 h9 stored other_all by blast
qed

theorem booking_amounts_witness:
  "\<exists>r db'. create_booking decimal (Some seeded) (request ''650102030405060708090aab'' ''Full Detail'')
             = (Inr r, db')
     \<and> total_price r = 104 \<and> commission_amount r = 52 / 5 \<and> net_amount r = 468 / 5
     \<and> commission_amount r = round2 decimal (fmul decimal (total_price r) (float_0_1 decimal))
     \<and> net_amount r = round2 decimal (fsub decimal (total_price r) (commission_amount r))"
proof -
  let ?c = "create_booking decimal (Some seeded) (request ''650102030405060708090aab'' ''Full Detail'')"
  let ?r = "\<lparr>booking_id = ''000000000000000000000007'', total_price = 104 :: rat,
            commission_amount = 52 / 5, net_amount = 468 / 5,
            message = ''Booking created. Proceed to payment to confirm.''\<rparr>"
  have h: "?c = (Inr ?r, snd ?c)"
    using full_detail_receipt by (simp add: prod_eq_iff)
  from booking_amounts[OF h] have
    "commission_amount ?r = round2 decimal (fmul decimal (total_price ?r) (float_0_1 decimal))
     \<and> net_amount ?r = round2 decimal (fsub decimal (total_price ?r) (commission_amount ?r))"
    by blast
  with h show ?thesis by (intro exI[of _ ?r] exI[of _ "snd ?c"]) simp
qed

lemma service_loop_docs:
  "service_loop (map VDoc ss) sn = Inr (List.find (\<lambda>s. map_of s ''name'' = Some (VStr sn)) ss)"
  by (induction ss) (simp_all add: py_get_VStr)

lemma py_float_error: "py_float A v = Inl e \<Longrightarrow> e = TypeError \<or> e = ValueError"
  by (cases v) (auto split: option.splits)

lemma chosen_service_docs:
  assumes "py_get cleaner ''services'' (VList []) = VList (map VDoc ss)"
  shows "find_chosen_service cleaner sn
           = Inr (List.find (\<lambda>s. map_of s ''name'' = Some (VStr sn)) ss)"
  using assms by (simp add: find_chosen_service_def service_loop_docs)

lemma find_first:
  "P s \<Longrightarrow> list_all (\<lambda>e. \<not> P e) pre \<Longrightarrow> List.find P (pre @ s # post) = Some s"
  by (induction pre) auto

lemma find_none: "List.find P xs = None \<longleftrightarrow> list_all (\<lambda>e. \<not> P e) xs"
  by (induction xs) auto

lemma create_booking_no_service:
  assumes "ObjectId (cleaner_id payload) = Inr oid"
      and "find_one (collections st ''cleaner'') oid = Some cleaner"
      and "find_chosen_service cleaner (service_name payload) = Inr None"
  shows "create_booking A (Some st) payload = (Inl InvalidRequest, Some st)"
  using assms find_one_nonempty[OF assms(2)] by (simp add: create_booking_def)

lemma create_booking_with_service:
  assumes "ObjectId (cleaner_id payload) = Inr oid"
      and "find_one (collections st ''cleaner'') oid = Some cleaner"
      and "find_chosen_service cleaner (service_name payload) = Inr (Some s)"
  shows "case py_float A (py_get s ''price'' (VInt 0)) of
           Inl e \<Rightarrow> create_booking A (Some st) payload = (Inl e, Some st)
         | Inr p \<Rightarrow>
             (case py_float A (py_get cleaner ''base_callout_fee'' (VInt 0)) of
                Inl e \<Rightarrow> create_booking A (Some st) payload = (Inl e, Some st)
              | Inr c \<Rightarrow> \<exists>r st'. create_booking A (Some st) payload = (Inr r, Some st')
                                 \<and> total_price r = fadd A p c)"
proof -
  have ne: "cleaner \<noteq> []" using assms(2) by (rule find_one_nonempty)
  have ns: "s \<noteq> []"
    using assms(3) by (auto simp: find_chosen_service_def split: sum.splits dest: chosen_nonempty)
  show ?thesis
  proof (cases "py_float A (py_get s ''price'' (VInt 0))")
    case (Inl e)
    then show ?thesis using assms ne ns by (simp add: create_booking_def)
  next
    case (Inr p)
    note p = this
    show ?thesis
    proof (cases "py_float A (py_get cleaner ''base_callout_fee'' (VInt 0))")
      case (Inl e)
      then show ?thesis using assms ne ns p by (simp add: create_booking_def)
    next
      case (Inr c)
      from create_booking_priced[OF assms(1,2,3) p Inr]
      show ?thesis using p Inr by auto
    qed
  qed
qed

section \<open>The chosen service\<close>

text \<open>
  Claim C4. For a request against a stored cleaner whose \<open>services\<close> field is a list of
  documents (or is absent), \<open>create_booking\<close> fails with InvalidRequest exactly when no
  entry of the list has the requested name, compared character by character; and when
  some entry has it, the service chosen is the first such entry of the list, and it is
  this entry's price that is converted and added to the callout fee.
\<close>

theorem chosen_service_first_match:
  assumes "ObjectId (cleaner_id payload) = Inr oid"
      and "find_one (collections st ''cleaner'') oid = Some cleaner"
      and "py_get cleaner ''services'' (VList []) = VList (map VDoc ss)"
  shows "(fst (create_booking A (Some st) payload) = Inl InvalidRequest
            \<longleftrightarrow> list_all (\<lambda>e. map_of e ''name'' \<noteq> Some (VStr (service_name payload))) ss)
       \<and> (\<forall>pre s post.
             ss = pre @ s # post
             \<and> map_of s ''name'' = Some (VStr (service_name payload))
             \<and> list_all (\<lambda>e. map_of e ''name'' \<noteq> Some (VStr (service_name payload))) pre
           \<longrightarrow> find_chosen_service cleaner (service_name payload) = Inr (Some s)
             \<and> (case py_float A (py_get s ''price'' (VInt 0)) of
                  Inl e \<Rightarrow> create_booking A (Some st) payload = (Inl e, Some st)
                | Inr p \<Rightarrow>
                    (case py_float A (py_get cleaner ''base_callout_fee'' (VInt 0)) of
                       Inl e \<Rightarrow> create_booking A (Some st) payload = (Inl e, Some st)
                     | Inr c \<Rightarrow> \<exists>r st'. create_booking A (Some st) payload = (Inr r, Some st')
                                        \<and> total_price r = fadd A p c)))"
proof -
  let ?P = "\<lambda>s. map_of s ''name'' = Some (VStr (service_name payload))"
  have chosen: "find_chosen_service cleaner (service_name payload) = Inr (List.find ?P ss)"
    using assms(3) by (rule chosen_service_docs)
  have iff: "fst (create_booking A (Some st) payload) = Inl InvalidRequest
               \<longleftrightarrow> list_all (\<lambda>e. \<not> ?P e) ss"
  proof (cases "List.find ?P ss")
    case None
    with chosen have "create_booking A (Some st) payload = (Inl InvalidRequest, Some st)"
      using assms(1,2) by (intro create_booking_no_service) simp_all
    moreover from None have "list_all (\<lambda>e. \<not> ?P e) ss" by (simp add: find_none)
    ultimately show ?thesis by simp
  next
    case (Some s)
    with chosen have c: "find_chosen_service cleaner (service_name payload) = Inr (Some s)" by simp
    from Some have "\<not> list_all (\<lambda>e. \<not> ?P e) ss"
      using find_none[of ?P ss] by simp
    moreover have "fst (create_booking A (Some st) payload) \<noteq> Inl InvalidRequest"
      using create_booking_with_service[OF assms(1,2) c, of A]
      by (auto split: sum.splits dest: py_float_error)
    ultimately show ?thesis by simp
  qed
  have first: "find_chosen_service cleaner (service_name payload) = Inr (Some s)
             \<and> (case py_float A (py_get s ''price'' (VInt 0)) of
                  Inl e \<Rightarrow> create_booking A (Some st) payload = (Inl e, Some st)
                | Inr p \<Rightarrow>
                    (case py_float A (py_get cleaner ''base_callout_fee'' (VInt 0)) of
                       Inl e \<Rightarrow> create_booking A (Some st) payload = (Inl e, Some st)
                     | Inr c \<Rightarrow> \<exists>r st'. create_booking A (Some st) payload = (Inr r, Some st')
                                        \<and> total_price r = fadd A p c))"
    if "ss = pre @ s # post \<and> ?P s \<and> list_all (\<lambda>e. \<not> ?P e) pre" for pre s post
  proof -
    from that have "List.find ?P ss = Some s" by (simp add: find_first)
    with chosen have c: "find_chosen_service cleaner (service_name payload) = Inr (Some s)" by simp
    with create_booking_with_service[OF assms(1,2) c, of A] show ?thesis by simp
  qed
  show ?thesis using iff first by blast
qed

lemma sparkle_listed:
  "py_get sparkle ''services'' (VList []) = VList (map VDoc sparkle_services)"
  by (simp add: sparkle_def py_get_def)

theorem chosen_service_first_match_witness:
  "ObjectId (cleaner_id (request ''650102030405060708090aab'' ''Full Detail''))
      = Inr [101, 1, 2, 3, 4, 5, 6, 7, 8, 9, 10, 171]
   \<and> find_one (collections seeded ''cleaner'') [101, 1, 2, 3, 4, 5, 6, 7, 8, 9, 10, 171] = Some sparkle
   \<and> py_get sparkle ''services'' (VList []) = VList (map VDoc sparkle_services)
   \<and> fst (create_booking decimal (Some seeded) (request ''650102030405060708090aab'' ''Full Detail''))
       \<noteq> Inl InvalidRequest
   \<and> find_chosen_service sparkle ''Full Detail'' = Inr (Some (sparkle_services ! 2))
   \<and> fst (create_booking decimal (Some seeded) (request ''650102030405060708090aab'' ''full detail''))
       = Inl InvalidRequest"
proof -
  have h1: "ObjectId (cleaner_id (request ''650102030405060708090aab'' sn))
      = Inr [101, 1, 2, 3, 4, 5, 6, 7, 8, 9, 10, 171]" for sn
    by (simp add: request_def sparkle_oid)
  note tF = chosen_service_first_match[where A = decimal,
      OF h1[of "''Full Detail''"] sparkle_found sparkle_listed]
  note tf = chosen_service_first_match[where A = decimal,
      OF h1[of "''full detail''"] sparkle_found sparkle_listed]
  have a: "fst (create_booking decimal (Some seeded) (request ''650102030405060708090aab'' ''Full Detail''))
       \<noteq> Inl InvalidRequest"
    using tF by (simp add: request_def sparkle_services_def)
  have b: "find_chosen_service sparkle ''Full Detail'' = Inr (Some (sparkle_services ! 2))"
    using tF[THEN conjunct2, rule_format,
        of "[sparkle_services ! 0, sparkle_services ! 1]" "sparkle_services ! 2" "[]"]
    by (simp add: request_def sparkle_services_def)
  have c: "fst (create_booking decimal (Some seeded) (request ''650102030405060708090aab'' ''full detail''))
       = Inl InvalidRequest"
    using tf by (simp add: request_def sparkle_services_def)
  show ?thesis using h1 sparkle_found sparkle_listed a b c by simp
qed

section \<open>The initial state of a booking\<close>

text \<open>
  Claim C5. A successful \<open>create_booking\<close> appends one document to the collection
  \<open>booking\<close>, and that document has status \<open>pending\<close>, payment status \<open>unpaid\<close> and a null
  payment reference.
\<close>

theorem new_booking_pending:
  assumes "create_booking A db payload = (Inr r, db')"
  shows "\<exists>st st' b. db = Some st \<and> db' = Some st'
           \<and> collections st' ''booking'' = collections st ''booking'' @ [b]
           \<and> map_of b ''status'' = Some (VStr ''pending'')
           \<and> map_of b ''payment_status'' = Some (VStr ''unpaid'')
           \<and> map_of b ''payment_reference'' = Some VNull"
proof -
  from create_booking_InrD[OF assms] obtain st d where h:
    "db = Some st" "(booking_id r, the db') = create_document st ''booking'' d"
    "db' \<noteq> None"
    "\<exists>p t cr ca na. d = booking_doc payload p t cr ca na"
    by blast
  from h(2,3) obtain st' where st': "db' = Some st'" "st' = snd (create_document st ''booking'' d)"
    by (metis option.collapse snd_conv)
  from h(4) obtain p t cr ca na where d: "d = booking_doc payload p t cr ca na" by blast
  let ?b = "(''_id'', VOid (oid_of_nat (next_oid st))) # d"
  have "collections st' ''booking'' = collections st ''booking'' @ [?b]"
    using st'(2) by (simp add: create_document_def Let_def)
  moreover have "map_of ?b ''status'' = Some (VStr ''pending'')"
    "map_of ?b ''payment_status'' = Some (VStr ''unpaid'')"
    "map_of ?b ''payment_reference'' = Some VNull"
    by (simp_all add: d booking_doc_def)
  ultimately show ?thesis using h(1) st'(1) by blast
qed

theorem new_booking_pending_witness:
  "\<exists>r db' st' b.
      create_booking decimal (Some seeded) (request ''650102030405060708090aab'' ''Full Detail'')
        = (Inr r, db')
    \<and> db' = Some st'
    \<and> collections st' ''booking'' = collections seeded ''booking'' @ [b]
    \<and> map_of b ''status'' = Some (VStr ''pending'')
    \<and> map_of b ''payment_status'' = Some (VStr ''unpaid'')
    \<and> map_of b ''payment_reference'' = Some VNull"
proof -
  let ?c = "create_booking decimal (Some seeded) (request ''650102030405060708090aab'' ''Full Detail'')"
  obtain r where "fst ?c = Inr r" using full_detail_receipt by blast
  then have h: "?c = (Inr r, snd ?c)" by (simp add: prod_eq_iff)
  from new_booking_pending[OF h] show ?thesis using h by auto
qed

section \<open>The effect of booking creation on the store\<close>

text \<open>
  Claim C9. When \<open>create_booking\<close> fails, whatever the error, the store after the call
  is the store before it. When it succeeds, the collections after the call are those
  before it with one document appended to \<open>booking\<close>; every other collection, the
  collection \<open>cleaner\<close> among them, is as it was.
\<close>

theorem create_booking_frame:
  "case create_booking A db payload of
     (Inl e, db') \<Rightarrow> db' = db
   | (Inr r, db') \<Rightarrow>
       \<exists>st st' b. db = Some st \<and> db' = Some st'
         \<and> collections st' = (collections st)(''booking'' := collections st ''booking'' @ [b])
         \<and> collections st' ''cleaner'' = collections st ''cleaner''"
proof (cases "create_booking A db payload")
  case (Pair res db')
  show ?thesis
  proof (cases res)
    case (Inl e)
    with Pair show ?thesis by (simp add: create_booking_InlD)
  next
    case (Inr r)
    with Pair have c: "create_booking A db payload = (Inr r, db')" by simp
    from create_booking_InrD[OF c] obtain st d where h:
      "db = Some st" "(booking_id r, the db') = create_document st ''booking'' d" "db' \<noteq> None"
      by blast
    from h(2,3) obtain st' where st': "db' = Some st'" "st' = snd (create_document st ''booking'' d)"
      by (metis option.collapse snd_conv)
    let ?b = "(''_id'', VOid (oid_of_nat (next_oid st))) # d"
    have "collections st' = (collections st)(''booking'' := collections st ''booking'' @ [?b])"
      using st'(2) by (simp add: create_document_def Let_def)
    moreover from this have "collections st' ''cleaner'' = collections st ''cleaner''" by simp
    ultimately show ?thesis using c h(1) st'(1) by auto
  qed
qed

section \<open>No store, and a store that cannot be reached\<close>

text \<open>
  Claim C8, as amended. When no store is configured, that is without a store handle,
  \<open>list_cleaners\<close>, \<open>create_booking\<close> and \<open>list_bookings\<close> each fail with the server error
  \<open>500 Database not configured\<close>; no operation of the store is run and nothing is retried:
  each result is the error itself, and the handle stays absent.
\<close>

theorem unavailable_store:
  "list_cleaners A None lat_q lng_q radius_km = Inl ServiceUnavailable
   \<and> create_booking A None payload = (Inl ServiceUnavailable, None)
   \<and> list_bookings A None = Inl ServiceUnavailable"
  by (simp add: list_cleaners_def create_booking_def list_bookings_def)

text \<open>
  Claim C8, as stated, promises the same of a store that is configured and cannot be
  reached. There the guard passes: for a well-formed cleaner identifier the handler goes
  on to \<^verbatim>\<open>find_one\<close>, and what the caller gets is the driver's error raised by that
  operation, not \<open>500 Database not configured\<close>.
\<close>

theorem unreachable_store_counterexample:
  "create_booking_on decimal (Some Unreachable) (request ''650102030405060708090aab'' ''Full Detail'')
     = (Inl ServerSelectionTimeoutError, Some Unreachable)
   \<and> fst (create_booking_on decimal (Some Unreachable)
           (request ''650102030405060708090aab'' ''Full Detail'')) \<noteq> Inl ServiceUnavailable"
  by (simp add: create_booking_on_def request_def sparkle_oid)

lemma create_booking_bad_id:
  "ObjectId (cleaner_id payload) = Inl e \<Longrightarrow> create_booking A (Some st) payload = (Inl e, Some st)"
  by (simp add: create_booking_def)

section \<open>Resolving the cleaner\<close>

text \<open>
  Claim C3. A malformed cleaner identifier does not end in NotFound: the constructor
  \<open>ObjectId\<close> raises \<open>InvalidId\<close> before the store is asked, and the handler lets the
  exception through; here at the identifier \<open>not-an-id\<close>, for every store and every other
  field of the request. (A well-formed identifier under which nothing is stored does end
  in NotFound, as the lemma after the theorem shows.)
\<close>

theorem malformed_cleaner_id:
  "create_booking A (Some st) (payload\<lparr>cleaner_id := ''not-an-id''\<rparr>) = (Inl InvalidId, Some st)"
  by (simp add: create_booking_def ObjectId_def)

lemma unknown_cleaner_id:
  "ObjectId (cleaner_id payload) = Inr oid \<Longrightarrow> find_one (collections st ''cleaner'') oid = None \<Longrightarrow>
     create_booking A (Some st) payload = (Inl NotFound, Some st)"
  by (simp add: create_booking_def)

section \<open>Missing price and missing callout fee\<close>

text \<open>
  Claim C10. When the stored cleaner has no field \<open>base_callout_fee\<close>, the fee is
  \<open>float(0)\<close> and a booking whose price converts is created with total price plus zero;
  when the chosen service has no field \<open>price\<close>, the price is \<open>float(0)\<close> likewise; when
  both are missing the booking is created with total zero plus zero.
\<close>

theorem missing_amounts_default_zero:
  assumes "ObjectId (cleaner_id payload) = Inr oid"
      and "find_one (collections st ''cleaner'') oid = Some cleaner"
      and "find_chosen_service cleaner (service_name payload) = Inr (Some service)"
  shows "(map_of cleaner ''base_callout_fee'' = None \<longrightarrow>
            (\<forall>p. py_float A (py_get service ''price'' (VInt 0)) = Inr p \<longrightarrow>
               (\<exists>r st'. create_booking A (Some st) payload = (Inr r, Some st')
                   \<and> total_price r = fadd A p (float_of_int A 0))))
       \<and> (map_of service ''price'' = None \<longrightarrow>
            (\<forall>c. py_float A (py_get cleaner ''base_callout_fee'' (VInt 0)) = Inr c \<longrightarrow>
               (\<exists>r st'. create_booking A (Some st) payload = (Inr r, Some st')
                   \<and> total_price r = fadd A (float_of_int A 0) c)))
       \<and> (map_of cleaner ''base_callout_fee'' = None \<and> map_of service ''price'' = None \<longrightarrow>
            (\<exists>r st'. create_booking A (Some st) payload = (Inr r, Some st')
                \<and> total_price r = fadd A (float_of_int A 0) (float_of_int A 0)))"
proof -
  have fee: "py_float A (py_get cleaner ''base_callout_fee'' (VInt 0)) = Inr (float_of_int A 0)"
    if "map_of cleaner ''base_callout_fee'' = None"
    using that by (simp add: py_get_absent)
  have pr: "py_float A (py_get service ''price'' (VInt 0)) = Inr (float_of_int A 0)"
    if "map_of service ''price'' = None"
    using that by (simp add: py_get_absent)
  have ok: "\<exists>r st'. create_booking A (Some st) payload = (Inr r, Some st')
              \<and> total_price r = fadd A p c"
    if "py_float A (py_get service ''price'' (VInt 0)) = Inr p"
       "py_float A (py_get cleaner ''base_callout_fee'' (VInt 0)) = Inr c" for p c
    using create_booking_priced[OF assms that] by blast
  show ?thesis using fee pr ok by blast
qed

lemma unpriced_oid:
  "ObjectId ''650102030405060708090aac'' = Inr [101, 1, 2, 3, 4, 5, 6, 7, 8, 9, 10, 172]"
  by (simp add: ObjectId_def hexval_def isspace_def)

theorem missing_amounts_default_zero_witness:
  "ObjectId (cleaner_id (request ''650102030405060708090aac'' ''Wash''))
      = Inr [101, 1, 2, 3, 4, 5, 6, 7, 8, 9, 10, 172]
   \<and> find_one (collections sparse ''cleaner'') [101, 1, 2, 3, 4, 5, 6, 7, 8, 9, 10, 172] = Some unpriced
   \<and> find_chosen_service unpriced (service_name (request ''650102030405060708090aac'' ''Wash''))
       = Inr (Some [(''name'', VStr ''Wash''), (''duration_minutes'', VInt 30)])
   \<and> map_of unpriced ''base_callout_fee'' = None
   \<and> map_of [(''name'', VStr ''Wash''), (''duration_minutes'', VInt 30 :: rat bson)] ''price'' = None
   \<and> (\<exists>r st'. create_booking decimal (Some sparse) (request ''650102030405060708090aac'' ''Wash'')
                 = (Inr r, Some st')
          \<and> total_price r = 0)"
proof -
  have h1: "ObjectId (cleaner_id (request ''650102030405060708090aac'' ''Wash''))
      = Inr [101, 1, 2, 3, 4, 5, 6, 7, 8, 9, 10, 172]"
    by (simp add: request_def unpriced_oid)
  have h2: "find_one (collections sparse ''cleaner'') [101, 1, 2, 3, 4, 5, 6, 7, 8, 9, 10, 172] = Some unpriced"
    by (simp add: find_one_def sparse_def unpriced_def)
  have h3: "find_chosen_service unpriced (service_name (request ''650102030405060708090aac'' ''Wash''))
       = Inr (Some [(''name'', VStr ''Wash''), (''duration_minutes'', VInt 30)])"
    by (simp add: find_chosen_service_def unpriced_def request_def py_get_def)
  have h4: "map_of unpriced ''base_callout_fee'' = None" by (simp add: unpriced_def)
  have h5: "map_of [(''name'', VStr ''Wash''), (''duration_minutes'', VInt 30 :: rat bson)] ''price'' = None"
    by simp
  from missing_amounts_default_zero[OF h1 h2 h3, of decimal] h4 h5
  have "\<exists>r st'. create_booking decimal (Some sparse) (request ''650102030405060708090aac'' ''Wash'')
                 = (Inr r, Some st')
          \<and> total_price r = fadd decimal (float_of_int decimal 0) (float_of_int decimal 0)"
    by blast
  then have "\<exists>r st'. create_booking decimal (Some sparse) (request ''650102030405060708090aac'' ''Wash'')
                 = (Inr r, Some st') \<and> total_price r = 0"
    by (simp add: decimal_def)
  with h1 h2 h3 h4 h5 show ?thesis by blast
qed

section \<open>Validation of well-shaped documents\<close>

lemma is_str_validates: "is_str v \<Longrightarrow> \<exists>s. v = VStr s \<and> validate_str A v = Some s"
  by (cases v) (simp_all add: is_str_def validate_str_def)

lemma is_opt_str_validates:
  "is_opt_str v \<Longrightarrow>
     (v = VNull \<and> validate_opt_str A v = Some None)
     \<or> (\<exists>s. v = VStr s \<and> validate_opt_str A v = Some (Some s))"
  by (cases v) (simp_all add: is_opt_str_def validate_opt_str_def validate_str_def)

lemma is_number_validates: "is_number v \<Longrightarrow> validate_float A v = Some (number_of A v)"
  by (cases v) (simp_all add: is_number_def validate_float_def number_of_def)

lemma is_int_validates: "is_int v \<Longrightarrow> \<exists>i. v = VInt i \<and> validate_int A v = Some i"
  by (cases v) (simp_all add: is_int_def validate_int_def)

lemma is_bool_validates: "is_bool v \<Longrightarrow> \<exists>b. v = VBool b \<and> validate_bool A v = Some b"
  by (cases v) (simp_all add: is_bool_def validate_bool_def)

lemma is_dict_validates: "is_dict v \<Longrightarrow> \<exists>d. v = VDoc d \<and> validate_dict A v = Some d"
  by (cases v) (simp_all add: is_dict_def validate_dict_def)

lemma absent_or_opt_str:
  assumes "absent_or is_opt_str d k"
  shows "validate_opt_str A (py_get d k VNull) = Some (opt_text d k)"
proof (cases "map_of d k")
  case None
  then show ?thesis by (simp add: py_get_def opt_text_def validate_opt_str_def)
next
  case (Some v)
  with assms have "is_opt_str v" by (simp add: absent_or_def)
  from is_opt_str_validates[OF this, of A] Some show ?thesis
    by (auto simp: py_get_def opt_text_def)
qed

lemma absent_or_number:
  assumes "absent_or is_number d k" and "is_number dflt"
  shows "validate_float A (py_get d k dflt) = Some (number_of A (py_get d k dflt))"
proof -
  have "is_number (py_get d k dflt)"
    using assms by (auto simp: absent_or_def py_get_def split: option.splits)
  then show ?thesis by (rule is_number_validates)
qed

lemma service_ok_validates:
  assumes "service_doc_ok A v"
  shows "\<exists>so. validate_ServiceOption A v = Some so \<and> surfaces_service A v so"
proof -
  from assms obtain s where v: "v = VDoc s"
    by (cases v) (simp_all add: service_doc_ok_def)
  from assms v obtain n where n: "map_of s ''name'' = Some (VStr n)"
    by (auto simp: service_doc_ok_def is_str_def split: option.splits bson.splits)
  from assms v have de: "absent_or is_opt_str s ''description''"
    by (simp add: service_doc_ok_def)
  from assms v obtain pv where pv: "map_of s ''price'' = Some pv" "is_number pv"
    "float_ge0 A (number_of A pv)"
    by (auto simp: service_doc_ok_def is_number_def number_of_def split: option.splits bson.splits)
  from assms v obtain m where m: "map_of s ''duration_minutes'' = Some (VInt m)" "10 \<le> m" "m \<le> 600"
    by (auto simp: service_doc_ok_def split: option.splits bson.splits)
  let ?so = "\<lparr>name = n, description = opt_text s ''description'',
              price = number_of A pv, duration_minutes = m\<rparr>"
  have "validate_ServiceOption A v = Some ?so"
    using v n pv m absent_or_opt_str[OF de, of A] is_number_validates[OF pv(2), of A]
    by (simp add: validate_ServiceOption_def validate_dict_def validate_str_def validate_int_def)
  moreover have "surfaces_service A v ?so"
    using v n pv m by (simp add: surfaces_service_def py_get_def)
  ultimately show ?thesis by blast
qed

lemma services_ok_validate:
  "list_all (service_doc_ok A) xs \<Longrightarrow>
     \<exists>sos. those (map (validate_ServiceOption A) xs) = Some sos
        \<and> list_all2 (surfaces_service A) xs sos"
proof (induction xs)
  case Nil
  then show ?case by simp
next
  case (Cons x xs)
  then obtain sos where sos: "those (map (validate_ServiceOption A) xs) = Some sos"
    "list_all2 (surfaces_service A) xs sos" by auto
  from Cons.prems obtain so where so: "validate_ServiceOption A x = Some so" "surfaces_service A x so"
    using service_ok_validates[of A x] by auto
  from sos so have "those (map (validate_ServiceOption A) (x # xs)) = Some (so # sos)
     \<and> list_all2 (surfaces_service A) (x # xs) (so # sos)" by simp
  then show ?case by blast
qed

lemma absent_or_services:
  assumes "absent_or (is_service_list A) d ''services''"
  shows "\<exists>sos. validate_services A (py_get d ''services'' (VList [])) = Some sos
           \<and> list_all2 (surfaces_service A)
                (case map_of d ''services'' of Some (VList xs) \<Rightarrow> xs | _ \<Rightarrow> []) sos"
proof (cases "map_of d ''services''")
  case None
  then show ?thesis by (simp add: py_get_def validate_services_def)
next
  case (Some v)
  with assms have "is_service_list A v" by (simp add: absent_or_def)
  then obtain xs where xs: "v = VList xs" "list_all (service_doc_ok A) xs"
    by (cases v) (simp_all add: is_service_list_def)
  from services_ok_validate[OF xs(2)] Some xs(1) show ?thesis
    by (simp add: py_get_def validate_services_def)
qed

lemma absent_or_dict:
  assumes "absent_or is_dict d k"
  shows "validate_dict A (py_get d k (VDoc [])) = Some (case map_of d k of Some (VDoc l) \<Rightarrow> l | _ \<Rightarrow> [])"
proof (cases "map_of d k")
  case None
  then show ?thesis by (simp add: py_get_def validate_dict_def)
next
  case (Some v)
  with assms have "is_dict v" by (simp add: absent_or_def)
  from is_dict_validates[OF this, of A] Some show ?thesis by (auto simp: py_get_def)
qed

lemma absent_or_int:
  assumes "absent_or is_int d k"
  shows "\<exists>i. validate_int A (py_get d k (VInt j)) = Some i"
  using assms is_int_validates[of _ A]
  by (cases "map_of d k") (auto simp: absent_or_def py_get_def validate_int_def)

lemma absent_or_bool:
  assumes "absent_or is_bool d k"
  shows "\<exists>b. validate_bool A (py_get d k (VBool c)) = Some b"
  using assms is_bool_validates[of _ A]
  by (cases "map_of d k") (auto simp: absent_or_def py_get_def validate_bool_def)

lemma fee_default:
  "number_of A (py_get d k (VFloat (float_of_int A 0))) = number_of A (py_get d k VNull)"
  by (simp add: py_get_def number_of_def split: option.splits)

lemma cleaner_ok_response:
  assumes "cleaner_doc_ok A d"
  shows "\<exists>r. cleaner_response A d = Inr r \<and> surfaces A d r"
proof -
  from assms obtain n where n: "map_of d ''name'' = Some (VStr n)"
    by (auto simp: cleaner_doc_ok_def is_str_def split: option.splits bson.splits)
  from assms have a:
    "absent_or is_number d ''rating''" "absent_or is_int d ''total_reviews''"
    "absent_or is_bool d ''is_available''" "absent_or is_opt_str d ''photo_url''"
    "absent_or is_opt_str d ''bio''" "absent_or (is_service_list A) d ''services''"
    "absent_or is_dict d ''location''" "absent_or is_number d ''base_callout_fee''"
    by (simp_all add: cleaner_doc_ok_def)
  have rt: "validate_float A (py_get d ''rating'' (VInt 0)) = Some (number_of A (py_get d ''rating'' (VInt 0)))"
    using a(1) by (rule absent_or_number) (simp add: is_number_def)
  obtain tr where tr: "validate_int A (py_get d ''total_reviews'' (VInt 0)) = Some tr"
    using absent_or_int[OF a(2)] by blast
  obtain av where av: "validate_bool A (py_get d ''is_available'' (VBool True)) = Some av"
    using absent_or_bool[OF a(3)] by blast
  note ph = absent_or_opt_str[OF a(4), of A]
  note bi = absent_or_opt_str[OF a(5), of A]
  obtain sos where sos: "validate_services A (py_get d ''services'' (VList [])) = Some sos"
    "list_all2 (surfaces_service A)
        (case map_of d ''services'' of Some (VList xs) \<Rightarrow> xs | _ \<Rightarrow> []) sos"
    using absent_or_services[OF a(6)] by blast
  note lo = absent_or_dict[OF a(7), of A]
  have fee: "validate_float A (py_get d ''base_callout_fee'' (VFloat (float_of_int A 0)))
      = Some (number_of A (py_get d ''base_callout_fee'' VNull))"
    using absent_or_number[OF a(8), of "VFloat (float_of_int A 0)" A]
    by (simp add: is_number_def fee_default)
  let ?r = "\<lparr>cr_id = py_str A (py_get d ''_id'' VNull), cr_name = n,
             cr_rating = number_of A (py_get d ''rating'' (VInt 0)), cr_total_reviews = tr,
             cr_is_available = av, cr_photo_url = opt_text d ''photo_url'',
             cr_bio = opt_text d ''bio'', cr_services = sos,
             cr_location = (case map_of d ''location'' of Some (VDoc l) \<Rightarrow> l | _ \<Rightarrow> []),
             cr_base_callout_fee = number_of A (py_get d ''base_callout_fee'' VNull)\<rparr>"
  have name': "validate_str A (py_get d ''name'' VNull) = Some n"
    using n by (simp add: py_get_def validate_str_def)
  have "cleaner_response A d = Inr ?r"
    unfolding cleaner_response_def new_CleanerResponse_def
    by (simp add: name' rt tr av ph bi sos(1) lo fee)
  moreover have "surfaces A d ?r" using sos(2) by (simp add: surfaces_def)
  ultimately show ?thesis by blast
qed

lemma cleaners_loop_all:
  "list_all (cleaner_doc_ok A) ds \<Longrightarrow>
     \<exists>rs. cleaners_loop A ds = Inr rs \<and> list_all2 (surfaces A) ds rs"
proof (induction ds)
  case Nil
  then show ?case by simp
next
  case (Cons d ds)
  then obtain rs where rs: "cleaners_loop A ds = Inr rs" "list_all2 (surfaces A) ds rs" by auto
  from Cons.prems obtain r where r: "cleaner_response A d = Inr r" "surfaces A d r"
    using cleaner_ok_response[of A d] by auto
  from rs r have "cleaners_loop A (d # ds) = Inr (r # rs) \<and> list_all2 (surfaces A) (d # ds) (r # rs)"
    by simp
  then show ?case by blast
qed

section \<open>The catalog listing\<close>

text \<open>
  Claim C6. When every stored cleaner has the shape of the data model, \<open>list_cleaners\<close>
  returns one projection for each stored cleaner, in the order of the store; each
  projection has photo and bio (null when the stored record has none) and the stored
  services, location and callout fee. The result does not depend on \<open>lat\<close>, \<open>lng\<close> and
  \<open>radius_km\<close>, and on an empty collection it is the empty list, not an error.
\<close>

theorem list_cleaners_everything:
  assumes "list_all (cleaner_doc_ok A) (collections st ''cleaner'')"
  shows "(\<exists>rs. list_cleaners A (Some st) lat_q lng_q radius_km = Inr rs
            \<and> list_all2 (surfaces A) (collections st ''cleaner'') rs)
       \<and> list_cleaners A (Some st) lat_q' lng_q' radius_km'
           = list_cleaners A (Some st) lat_q lng_q radius_km
       \<and> (collections st ''cleaner'' = [] \<longrightarrow>
            list_cleaners A (Some st) lat_q lng_q radius_km = Inr [])"
  using cleaners_loop_all[OF assms]
  by (auto simp: list_cleaners_def get_documents_def)

lemma catalog_ok: "list_all (cleaner_doc_ok decimal) (collections catalog ''cleaner'')"
  by (simp add: catalog_def cleaner_doc_ok_def sparkle_def plain_def sparkle_services_def
      absent_or_def is_str_def is_number_def is_int_def is_bool_def is_opt_str_def is_dict_def
      is_service_list_def service_doc_ok_def decimal_def)

theorem list_cleaners_everything_witness:
  "list_all (cleaner_doc_ok decimal) (collections catalog ''cleaner'')
   \<and> (\<exists>r1 r2. list_cleaners decimal (Some catalog) None None 25 = Inr [r1, r2]
         \<and> cr_bio r1 = Some ''Premium mobile car wash & detailing''
         \<and> cr_base_callout_fee r1 = 5
         \<and> map name (cr_services r1) = [''Exterior Wash'', ''Interior Clean'', ''Full Detail'']
         \<and> map price (cr_services r1) = [25, 35, 99]
         \<and> cr_photo_url r2 = None \<and> cr_bio r2 = None \<and> cr_services r2 = []
         \<and> cr_location r2 = [] \<and> cr_base_callout_fee r2 = 0)"
proof -
  from list_cleaners_everything[OF catalog_ok, of None None 25]
  obtain rs where rs: "list_cleaners decimal (Some catalog) None None 25 = Inr rs"
    "list_all2 (surfaces decimal) (collections catalog ''cleaner'') rs" by blast
  from rs(2) obtain r1 r2 where r: "rs = [r1, r2]" "surfaces decimal sparkle r1" "surfaces decimal plain r2"
    by (auto simp: catalog_def list_all2_Cons1)
  from r(2) have s1: "cr_bio r1 = Some ''Premium mobile car wash & detailing''"
     "cr_base_callout_fee r1 = 5"
     "list_all2 (surfaces_service decimal) (map VDoc sparkle_services) (cr_services r1)"
    by (simp_all add: surfaces_def sparkle_def opt_text_def number_of_def py_get_def decimal_def)
  from s1(3) have s1': "map name (cr_services r1) = [''Exterior Wash'', ''Interior Clean'', ''Full Detail'']"
     "map price (cr_services r1) = [25, 35, 99]"
    by (auto simp: sparkle_services_def list_all2_Cons1 surfaces_service_def number_of_def
        py_get_def decimal_def)
  from r(3) have s2: "cr_photo_url r2 = None" "cr_bio r2 = None" "cr_services r2 = []"
     "cr_location r2 = []" "cr_base_callout_fee r2 = 0"
    by (simp_all add: surfaces_def plain_def opt_text_def number_of_def py_get_def decimal_def)
  show ?thesis using catalog_ok rs(1) r(1) s1(1,2) s1' s2
    by (intro conjI exI[of _ r1] exI[of _ r2]) simp_all
qed

lemma map_of_py_set: "map_of (py_set d k v) k' = (if k' = k then Some v else map_of d k')"
  by (induction d) auto

lemma stringify_id_total:
  "\<exists>b. stringify_id A d = Inr b
      \<and> (\<forall>k. k \<noteq> ''_id'' \<longrightarrow> map_of b k = map_of d k)
      \<and> (\<forall>oid. map_of d ''_id'' = Some (VOid oid) \<longrightarrow> map_of b ''_id'' = Some (VStr (hexlify oid)))"
proof (cases "map_of d ''_id''")
  case None
  then show ?thesis by (simp add: stringify_id_def py_get_def map_of_py_set)
next
  case (Some v)
  then show ?thesis by (auto simp: stringify_id_def py_get_def map_of_py_set)
qed

lemma bookings_loop_total:
  "\<exists>bs. bookings_loop A ds = Inr bs \<and> length bs = length ds
      \<and> (\<forall>i<length ds.
            (\<forall>k. k \<noteq> ''_id'' \<longrightarrow> map_of (bs ! i) k = map_of (ds ! i) k)
          \<and> (\<forall>oid. map_of (ds ! i) ''_id'' = Some (VOid oid)
                \<longrightarrow> map_of (bs ! i) ''_id'' = Some (VStr (hexlify oid))))"
proof (induction ds)
  case Nil
  then show ?case by simp
next
  case (Cons d ds)
  then obtain bs where bs: "bookings_loop A ds = Inr bs" "length bs = length ds"
    "\<forall>i<length ds.
            (\<forall>k. k \<noteq> ''_id'' \<longrightarrow> map_of (bs ! i) k = map_of (ds ! i) k)
          \<and> (\<forall>oid. map_of (ds ! i) ''_id'' = Some (VOid oid)
                \<longrightarrow> map_of (bs ! i) ''_id'' = Some (VStr (hexlify oid)))" by blast
  obtain b where b: "stringify_id A d = Inr b"
    "\<forall>k. k \<noteq> ''_id'' \<longrightarrow> map_of b k = map_of d k"
    "\<forall>oid. map_of d ''_id'' = Some (VOid oid) \<longrightarrow> map_of b ''_id'' = Some (VStr (hexlify oid))"
    using stringify_id_total[of A d] by blast
  have "bookings_loop A (d # ds) = Inr (b # bs)" using b(1) bs(1) by simp
  moreover have "length (b # bs) = length (d # ds)" using bs(2) by simp
  moreover have "\<forall>i<length (d # ds).
            (\<forall>k. k \<noteq> ''_id'' \<longrightarrow> map_of ((b # bs) ! i) k = map_of ((d # ds) ! i) k)
          \<and> (\<forall>oid. map_of ((d # ds) ! i) ''_id'' = Some (VOid oid)
                \<longrightarrow> map_of ((b # bs) ! i) ''_id'' = Some (VStr (hexlify oid)))"
  proof (intro allI impI)
    fix i assume "i < length (d # ds)"
    then show "(\<forall>k. k \<noteq> ''_id'' \<longrightarrow> map_of ((b # bs) ! i) k = map_of ((d # ds) ! i) k)
          \<and> (\<forall>oid. map_of ((d # ds) ! i) ''_id'' = Some (VOid oid)
                \<longrightarrow> map_of ((b # bs) ! i) ''_id'' = Some (VStr (hexlify oid)))"
      using b(2,3) bs(3) by (cases i) simp_all
  qed
  ultimately show ?case by blast
qed

section \<open>The booking listing\<close>

text \<open>
  Claim C7. \<open>list_bookings\<close> never fails on an available store and returns one document
  for each stored booking, in the order of the store, whatever its customer, cleaner or
  status: every field other than \<open>_id\<close> is as stored, and an \<open>_id\<close> that is an ObjectId is
  replaced by its hexadecimal string.
\<close>

theorem list_bookings_everything:
  "\<exists>bs. list_bookings A (Some st) = Inr bs
      \<and> length bs = length (collections st ''booking'')
      \<and> (\<forall>i<length (collections st ''booking'').
            (\<forall>k. k \<noteq> ''_id'' \<longrightarrow> map_of (bs ! i) k = map_of (collections st ''booking'' ! i) k)
          \<and> (\<forall>oid. map_of (collections st ''booking'' ! i) ''_id'' = Some (VOid oid)
                \<longrightarrow> map_of (bs ! i) ''_id'' = Some (VStr (hexlify oid))))"
  using bookings_loop_total[of A "collections st ''booking''"]
  by (simp add: list_bookings_def get_documents_def)

lemma booked_bookings:
  "\<exists>d. collections booked ''booking'' = [d]
      \<and> map_of d ''_id'' = Some (VOid [0, 0, 0, 0, 0, 0, 0, 0, 0, 0, 0, 7])
      \<and> map_of d ''status'' = Some (VStr ''pending'')
      \<and> map_of d ''cleaner_id'' = Some (VStr ''650102030405060708090aab'')"
  by (simp add: booked_def create_document_def seeded_def oid_of_nat_def booking_doc_def
      request_def Let_def)

theorem list_bookings_everything_witness:
  "\<exists>b. list_bookings decimal (Some booked) = Inr [b]
      \<and> map_of b ''_id'' = Some (VStr ''000000000000000000000007'')
      \<and> map_of b ''status'' = Some (VStr ''pending'')
      \<and> map_of b ''cleaner_id'' = Some (VStr ''650102030405060708090aab'')"
proof -
  from booked_bookings obtain d where d: "collections booked ''booking'' = [d]"
    "map_of d ''_id'' = Some (VOid [0, 0, 0, 0, 0, 0, 0, 0, 0, 0, 0, 7])"
    "map_of d ''status'' = Some (VStr ''pending'')"
    "map_of d ''cleaner_id'' = Some (VStr ''650102030405060708090aab'')" by blast
  from list_bookings_everything[of decimal booked] obtain bs where bs:
    "list_bookings decimal (Some booked) = Inr bs" "length bs = length (collections booked ''booking'')"
    "\<forall>i<length (collections booked ''booking'').
            (\<forall>k. k \<noteq> ''_id'' \<longrightarrow> map_of (bs ! i) k = map_of (collections booked ''booking'' ! i) k)
          \<and> (\<forall>oid. map_of (collections booked ''booking'' ! i) ''_id'' = Some (VOid oid)
                \<longrightarrow> map_of (bs ! i) ''_id'' = Some (VStr (hexlify oid)))" by blast
  from bs(2) d(1) obtain b where b: "bs = [b]" by (cases bs) auto
  from bs(3) d b have
    "map_of b ''_id'' = Some (VStr (hexlify [0, 0, 0, 0, 0, 0, 0, 0, 0, 0, 0, 7]))"
    "map_of b ''status'' = Some (VStr ''pending'')"
    "map_of b ''cleaner_id'' = Some (VStr ''650102030405060708090aab'')"
    by simp_all
  then show ?thesis using bs(1) b by (simp add: hexlify_def hexdigit_def)
qed

end
